theory Spec2Isabelle
  imports Main
begin

section \<open>Values of the parsed CI document\<close>

text \<open>
  The CI file is a YAML document that has already been parsed into Python values.
  A dictionary keeps its insertion order, so it is an association list; a float is
  kept as its \<open>str()\<close> rendering, the only thing the code ever asks of it.
  Strings are lists of 8-bit characters and \<open>lower()\<close> is the ASCII one.
\<close>

datatype pyval =
    PNone
  | PBool bool
  | PInt int
  | PFloat string
  | PStr string
  | PList "pyval list"
  | PDict "(pyval \<times> pyval) list"

datatype error = TypeError | KeyError | AttributeError | IndexError | ValueError

type_synonym cidict = "(string \<times> pyval) list"

subsection \<open>Python primitives used by the code\<close>

definition digit_char :: "nat \<Rightarrow> char" where
  "digit_char n = char_of (48 + n)"

function str_nat :: "nat \<Rightarrow> string" where
  "str_nat n = (if n < 10 then [digit_char n] else str_nat (n div 10) @ [digit_char (n mod 10)])"
  by pat_completeness auto
termination
  by (relation "measure id") auto

definition str_int :: "int \<Rightarrow> string" where
  "str_int i = (if i < 0 then CHR ''-'' # str_nat (nat (- i)) else str_nat (nat i))"

text \<open>\<open>isinstance(o, (str, int, bool, float))\<close>\<close>

fun is_scalar :: "pyval \<Rightarrow> bool" where
  "is_scalar (PStr _) = True"
| "is_scalar (PInt _) = True"
| "is_scalar (PBool _) = True"
| "is_scalar (PFloat _) = True"
| "is_scalar _ = False"

text \<open>\<open>str(o)\<close>, on the scalars it is applied to.\<close>

fun py_str :: "pyval \<Rightarrow> string" where
  "py_str (PStr s) = s"
| "py_str (PInt i) = str_int i"
| "py_str (PBool b) = (if b then ''True'' else ''False'')"
| "py_str (PFloat r) = r"
| "py_str PNone = ''None''"
| "py_str _ = []"

text \<open>Truth value of an object in a condition.\<close>

fun truthy :: "pyval \<Rightarrow> bool" where
  "truthy PNone = False"
| "truthy (PBool b) = b"
| "truthy (PInt i) = (i \<noteq> 0)"
| "truthy (PFloat r) = (r \<noteq> ''0.0'' \<and> r \<noteq> ''-0.0'')"
| "truthy (PStr s) = (s \<noteq> [])"
| "truthy (PList xs) = (xs \<noteq> [])"
| "truthy (PDict kvs) = (kvs \<noteq> [])"

fun is_dict :: "pyval \<Rightarrow> bool" where
  "is_dict (PDict _) = True"
| "is_dict _ = False"

fun is_list :: "pyval \<Rightarrow> bool" where
  "is_list (PList _) = True"
| "is_list _ = False"

text \<open>Dictionary access with a string key: \<open>d[k]\<close>, \<open>k in d\<close>, \<open>d[k] = v\<close>.\<close>

fun dget :: "('k \<times> 'v) list \<Rightarrow> 'k \<Rightarrow> 'v option" where
  "dget [] k = None"
| "dget ((k', v) # kvs) k = (if k' = k then Some v else dget kvs k)"

fun dset :: "('k \<times> 'v) list \<Rightarrow> 'k \<Rightarrow> 'v \<Rightarrow> ('k \<times> 'v) list" where
  "dset [] k v = [(k, v)]"
| "dset ((k', v') # kvs) k v = (if k' = k then (k, v) # kvs else (k', v') # dset kvs k v)"

definition ddel :: "('k \<times> 'v) list \<Rightarrow> 'k \<Rightarrow> ('k \<times> 'v) list" where
  "ddel kvs k = filter (\<lambda>kv. fst kv \<noteq> k) kvs"

definition dhas :: "('k \<times> 'v) list \<Rightarrow> 'k \<Rightarrow> bool" where
  "dhas kvs k = (dget kvs k \<noteq> None)"

section \<open>Scalar and list coercion helpers\<close>

text \<open>\<open>CiFile.extract_str_list(obj, noneval)\<close>; \<open>noneval\<close> is a list or \<open>None\<close>.\<close>

fun extract_str_list :: "pyval \<Rightarrow> string list option \<Rightarrow> string list option" where
  "extract_str_list PNone noneval = noneval"
| "extract_str_list (PStr s) noneval = Some [s]"
| "extract_str_list (PInt i) noneval = Some [py_str (PInt i)]"
| "extract_str_list (PBool b) noneval = Some [py_str (PBool b)]"
| "extract_str_list (PFloat r) noneval = Some [py_str (PFloat r)]"
| "extract_str_list (PList xs) noneval = Some (map py_str (filter is_scalar xs))"
| "extract_str_list (PDict kvs) noneval = noneval"

text \<open>\<open>CiFile.extract_str(obj, noneval)\<close>; \<open>noneval\<close> is any object.\<close>

fun is_str :: "pyval \<Rightarrow> bool" where
  "is_str (PStr _) = True"
| "is_str _ = False"

fun extract_str :: "pyval \<Rightarrow> pyval \<Rightarrow> pyval" where
  "extract_str (PList xs) noneval =
     (case filter is_str xs of [] \<Rightarrow> noneval | s # _ \<Rightarrow> s)"
| "extract_str obj noneval = (if is_scalar obj then PStr (py_str obj) else noneval)"

text \<open>
  \<open>CiFile.extract_str_dict(d)\<close>: the loop over \<open>d.items()\<close> stores into \<open>ret\<close>
  every entry whose coerced value is truthy.
\<close>

fun extract_str_dict_loop :: "(pyval \<times> pyval) list \<Rightarrow> (pyval \<times> pyval) list \<Rightarrow> (pyval \<times> pyval) list" where
  "extract_str_dict_loop [] ret = ret"
| "extract_str_dict_loop ((var, val) # kvs) ret =
     (let val' = extract_str val PNone
      in extract_str_dict_loop kvs (if truthy val' then dset ret var val' else ret))"

definition extract_str_dict :: "pyval \<Rightarrow> (pyval \<times> pyval) list" where
  "extract_str_dict d = extract_str_dict_loop (case d of PDict kvs \<Rightarrow> kvs | _ \<Rightarrow> []) []"

section \<open>The commit ref slug\<close>

definition ord :: "char \<Rightarrow> nat" where
  "ord c = of_char c"

definition is_digit :: "char \<Rightarrow> bool" where
  "is_digit c = (48 \<le> ord c \<and> ord c \<le> 57)"

definition is_lower_letter :: "char \<Rightarrow> bool" where
  "is_lower_letter c = (97 \<le> ord c \<and> ord c \<le> 122)"

definition is_upper_letter :: "char \<Rightarrow> bool" where
  "is_upper_letter c = (65 \<le> ord c \<and> ord c \<le> 90)"

definition lower_char :: "char \<Rightarrow> char" where
  "lower_char c = (if is_upper_letter c then char_of (ord c + 32) else c)"

definition lower :: "string \<Rightarrow> string" where
  "lower s = map lower_char s"

text \<open>
  \<open>re.sub(cls + '+', '-', s)\<close> for a character class: every maximal run of characters
  of the class becomes one dash. The flag says whether the run has already been replaced.
\<close>

fun re_sub_runs :: "(char \<Rightarrow> bool) \<Rightarrow> bool \<Rightarrow> string \<Rightarrow> string" where
  "re_sub_runs cls inrun [] = []"
| "re_sub_runs cls inrun (c # cs) =
     (if cls c then (if inrun then re_sub_runs cls True cs else CHR ''-'' # re_sub_runs cls True cs)
      else c # re_sub_runs cls False cs)"

definition strip_chars :: "char \<Rightarrow> string \<Rightarrow> string" where
  "strip_chars d s = rev (dropWhile (\<lambda>c. c = d) (rev (dropWhile (\<lambda>c. c = d) s)))"

text \<open>The code: \<open>re.sub('[^0-9a-zA-Z]+', '-', name.lower())[:63].strip('-')\<close>.\<close>

definition ref_slug :: "string \<Rightarrow> string" where
  "ref_slug name =
     strip_chars CHR ''-''
       (take 63 (re_sub_runs (\<lambda>c. \<not> (is_digit c \<or> is_lower_letter c \<or> is_upper_letter c)) False (lower name)))"

text \<open>The specification's wording: the class is everything outside \<open>[0-9a-z]\<close>.\<close>

definition spec_slug :: "string \<Rightarrow> string" where
  "spec_slug name =
     strip_chars CHR ''-''
       (take 63 (re_sub_runs (\<lambda>c. \<not> (is_digit c \<or> is_lower_letter c)) False (lower name)))"

section \<open>Dynamic operations on objects\<close>

text \<open>
  The code applies \<open>in\<close>, subscription, item assignment and \<open>len\<close> to whatever
  object the document holds at that place. Each operation returns the exception Python
  raises when the object does not support it.
\<close>

definition ebind :: "error + 'a \<Rightarrow> ('a \<Rightarrow> error + 'b) \<Rightarrow> error + 'b" where
  "ebind m f = (case m of Inl e \<Rightarrow> Inl e | Inr x \<Rightarrow> f x)"

definition startswith :: "string \<Rightarrow> string \<Rightarrow> bool" where
  "startswith s p = (take (length p) s = p)"

fun is_substr :: "string \<Rightarrow> string \<Rightarrow> bool" where
  "is_substr s [] = (s = [])"
| "is_substr s (c # cs) = (startswith (c # cs) s \<or> is_substr s cs)"

text \<open>\<open>k in obj\<close> for a string \<open>k\<close>.\<close>

fun py_in :: "string \<Rightarrow> pyval \<Rightarrow> error + bool" where
  "py_in k (PDict kvs) = Inr (dhas kvs (PStr k))"
| "py_in k (PList xs) = Inr (PStr k \<in> set xs)"
| "py_in k (PStr t) = Inr (is_substr k t)"
| "py_in k _ = Inl TypeError"

text \<open>\<open>obj[k]\<close> for a string \<open>k\<close>.\<close>

fun getitem :: "pyval \<Rightarrow> string \<Rightarrow> error + pyval" where
  "getitem (PDict kvs) k = (case dget kvs (PStr k) of None \<Rightarrow> Inl KeyError | Some v \<Rightarrow> Inr v)"
| "getitem _ k = Inl TypeError"

text \<open>\<open>obj[k] = v\<close> for a string \<open>k\<close>; the updated object is returned.\<close>

fun setitem :: "pyval \<Rightarrow> string \<Rightarrow> pyval \<Rightarrow> error + pyval" where
  "setitem (PDict kvs) k v = Inr (PDict (dset kvs (PStr k) v))"
| "setitem _ k v = Inl TypeError"

text \<open>\<open>obj[k] if k in obj else dflt\<close>\<close>

definition get_or :: "pyval \<Rightarrow> string \<Rightarrow> pyval \<Rightarrow> error + pyval" where
  "get_or obj k dflt = ebind (py_in k obj) (\<lambda>b. if b then getitem obj k else Inr dflt)"

fun py_len :: "pyval \<Rightarrow> error + nat" where
  "py_len (PList xs) = Inr (length xs)"
| "py_len (PStr s) = Inr (length s)"
| "py_len (PDict kvs) = Inr (length kvs)"
| "py_len _ = Inl TypeError"

text \<open>\<open>stages[0]\<close>; in a dictionary the keys \<open>0\<close>, \<open>False\<close> and \<open>0.0\<close> are the same key.\<close>

definition is_zero_key :: "pyval \<Rightarrow> bool" where
  "is_zero_key k = (k = PInt 0 \<or> k = PBool False \<or> k = PFloat ''0.0'' \<or> k = PFloat ''-0.0'')"

fun getitem0 :: "pyval \<Rightarrow> error + pyval" where
  "getitem0 (PList []) = Inl IndexError"
| "getitem0 (PList (x # xs)) = Inr x"
| "getitem0 (PStr []) = Inl IndexError"
| "getitem0 (PStr (c # cs)) = Inr (PStr [c])"
| "getitem0 (PDict kvs) =
     (case filter (\<lambda>kv. is_zero_key (fst kv)) kvs of [] \<Rightarrow> Inl KeyError | kv # _ \<Rightarrow> Inr (snd kv))"
| "getitem0 _ = Inl TypeError"

text \<open>\<open>stages.append(s)\<close>\<close>

fun list_append :: "pyval \<Rightarrow> pyval \<Rightarrow> error + pyval" where
  "list_append (PList xs) v = Inr (PList (xs @ [v]))"
| "list_append _ v = Inl AttributeError"

text \<open>\<open>stages.insert(0, s)\<close>\<close>

fun list_insert0 :: "pyval \<Rightarrow> pyval \<Rightarrow> error + pyval" where
  "list_insert0 (PList xs) v = Inr (PList (v # xs))"
| "list_insert0 _ v = Inl AttributeError"

definition str_list_val :: "string list option \<Rightarrow> pyval" where
  "str_list_val r = (case r of None \<Rightarrow> PNone | Some xs \<Rightarrow> PList (map PStr xs))"

section \<open>The pipeline normalizer\<close>

definition PIPELINES_KEYS :: "string list" where
  "PIPELINES_KEYS = [''stages'', ''image'', ''before_script'', ''after_script'', ''variables'', ''services'']"

record config =
  default_stage :: string
  default_image :: string
  default_artifact_expire_in :: string
  default_artifact_name :: string
  forced_variables :: pyval

definition default_config :: config where
  "default_config = \<lparr> default_stage = ''test'', default_image = ''local_system_shell'',
     default_artifact_expire_in = ''3 days'',
     default_artifact_name = ''${CI_JOB_NAME}_${CI_COMMIT_REF_NAME}_${CI_JOB_ID}'',
     forced_variables = PDict [] \<rparr>"

text \<open>
  \<open>for jobname, job in self._cidict.items(): if jobname not in PIPELINES_KEYS: ...\<close>
  where the body changes the job it visits; the first exception ends the loop.
\<close>

fun for_jobs :: "(string \<Rightarrow> pyval \<Rightarrow> error + pyval) \<Rightarrow> cidict \<Rightarrow> error + cidict" where
  "for_jobs f [] = Inr []"
| "for_jobs f ((jobname, job) # kvs) =
     (if jobname \<in> set PIPELINES_KEYS
      then (case for_jobs f kvs of Inl e \<Rightarrow> Inl e | Inr r \<Rightarrow> Inr ((jobname, job) # r))
      else (case f jobname job of Inl e \<Rightarrow> Inl e
            | Inr job' \<Rightarrow> (case for_jobs f kvs of Inl e \<Rightarrow> Inl e | Inr r \<Rightarrow> Inr ((jobname, job') # r))))"

subsection \<open>\<open>_pipeline_various_tweaks\<close>\<close>

fun filter_templates :: "(pyval \<times> pyval) list \<Rightarrow> cidict" where
  "filter_templates [] = []"
| "filter_templates ((PStr jobname, job) # kvs) =
     (if startswith jobname ''.'' then filter_templates kvs else (jobname, job) # filter_templates kvs)"
| "filter_templates (_ # kvs) = filter_templates kvs"

definition pipeline_various_tweaks :: "config \<Rightarrow> (pyval \<times> pyval) list \<Rightarrow> cidict" where
  "pipeline_various_tweaks cfg root =
     (let d = filter_templates root;
          tmp = extract_str (case dget d ''image'' of Some v \<Rightarrow> v | None \<Rightarrow> PStr (default_image cfg))
                  (PStr (default_image cfg))
      in dset d ''image'' (if is_str tmp then tmp else PStr (default_image cfg)))"

subsection \<open>\<open>_job_scan_apply_stages\<close>\<close>

text \<open>The first loop: one job's explicit stage is appended to \<open>stages\<close> when it is new.\<close>

definition scan_stage :: "string \<times> pyval \<Rightarrow> pyval \<Rightarrow> error + pyval" where
  "scan_stage kv stages =
     (case (if fst kv \<notin> set PIPELINES_KEYS
            then (case snd kv of PDict jd \<Rightarrow> dget jd (PStr ''stage'') | _ \<Rightarrow> None) else None) of
        None \<Rightarrow> Inr stages
      | Some sv \<Rightarrow>
          (let stage = extract_str sv (PStr '''')
           in if truthy stage
              then ebind (py_in (py_str stage) stages)
                     (\<lambda>b. if b then Inr stages else list_append stages stage)
              else Inr stages))"

fun efold :: "('a \<Rightarrow> 's \<Rightarrow> error + 's) \<Rightarrow> 'a list \<Rightarrow> 's \<Rightarrow> error + 's" where
  "efold f [] s = Inr s"
| "efold f (x # xs) s = (case f x s of Inl e \<Rightarrow> Inl e | Inr s' \<Rightarrow> efold f xs s')"

text \<open>The second loop: every job that is a dictionary gets a stage.\<close>

definition assign_stage :: "pyval \<Rightarrow> string \<Rightarrow> pyval \<Rightarrow> error + pyval" where
  "assign_stage stages jobname job =
     (case job of
        PDict jd \<Rightarrow>
          ebind (getitem0 stages) (\<lambda>s0.
            Inr (PDict (dset jd (PStr ''stage'')
                   (extract_str (case dget jd (PStr ''stage'') of Some sv \<Rightarrow> sv | None \<Rightarrow> s0) s0))))
      | _ \<Rightarrow> Inr job)"

definition job_scan_apply_stages :: "config \<Rightarrow> cidict \<Rightarrow> error + cidict" where
  "job_scan_apply_stages cfg d =
     (let stages0 = (case dget d ''stages'' of Some s \<Rightarrow> s | None \<Rightarrow> PList []);
          d1 = ddel d ''stages''
      in ebind (efold scan_stage d1 stages0) (\<lambda>stages1.
           let stages = (if truthy stages1 then stages1 else PList [PStr (default_stage cfg)])
           in ebind (for_jobs (assign_stage stages) d1) (\<lambda>d2. Inr (dset d2 ''stages'' stages))))"

subsection \<open>\<open>_job_convert_list_to_script\<close>\<close>

definition convert_list_to_script :: "string \<Rightarrow> pyval \<Rightarrow> error + pyval" where
  "convert_list_to_script jobname job =
     (case job of
        PList xs \<Rightarrow>
          (case extract_str_list job None of
             Some (s # ss) \<Rightarrow> Inr (PDict [(PStr ''script'', PList (map PStr (s # ss)))])
           | _ \<Rightarrow> Inr job)
      | _ \<Rightarrow> Inr job)"

definition job_convert_list_to_script :: "cidict \<Rightarrow> error + cidict" where
  "job_convert_list_to_script d = for_jobs convert_list_to_script d"

subsection \<open>\<open>_job_convert_before_after_script\<close>\<close>

definition replace_underscore :: "string \<Rightarrow> string" where
  "replace_underscore s = map (\<lambda>c. if c = CHR ''_'' then CHR '':'' else c) s"

definition convert_script_key :: "string \<Rightarrow> cidict \<Rightarrow> error + cidict" where
  "convert_script_key jobkey d =
     (let script = (case dget d jobkey of Some v \<Rightarrow> v | None \<Rightarrow> PList [])
      in ebind (py_len script) (\<lambda>n.
           if n > 0
           then (let d1 = dset (ddel d jobkey) (replace_underscore jobkey)
                            (PDict [(PStr ''stage'', PStr jobkey), (PStr ''script'', script)])
                 in case dget d1 ''stages'' of
                      None \<Rightarrow> Inl KeyError
                    | Some st \<Rightarrow>
                        ebind (if jobkey = ''before_script''
                               then list_insert0 st (PStr ''before_script'') else Inr st) (\<lambda>st1.
                        ebind (if jobkey = ''after_script''
                               then list_append st1 (PStr ''after_script'') else Inr st1) (\<lambda>st2.
                        Inr (dset d1 ''stages'' st2))))
           else Inr d))"

definition job_convert_before_after_script :: "cidict \<Rightarrow> error + cidict" where
  "job_convert_before_after_script d =
     ebind (convert_script_key ''before_script'' d) (convert_script_key ''after_script'')"

subsection \<open>\<open>_job_various_tweaks\<close>\<close>

definition various_tweaks :: "string \<Rightarrow> pyval \<Rightarrow> error + pyval" where
  "various_tweaks jobname job =
     ebind (get_or job ''tags'' (PList [])) (\<lambda>tmp.
     ebind (setitem job ''tags'' (str_list_val (extract_str_list tmp (Some [])))) (\<lambda>job1.
     ebind (get_or job1 ''dependencies'' (PList [])) (\<lambda>tmp2.
     setitem job1 ''dependencies'' (str_list_val (extract_str_list tmp2 (Some []))))))"

definition job_various_tweaks :: "cidict \<Rightarrow> error + cidict" where
  "job_various_tweaks d = for_jobs various_tweaks d"

subsection \<open>\<open>_job_script_always_list\<close>\<close>

definition script_always_list :: "string \<Rightarrow> pyval \<Rightarrow> error + pyval" where
  "script_always_list jobname job =
     ebind (py_in ''script'' job) (\<lambda>b.
     ebind (if b then Inr job else setitem job ''script'' (PList [])) (\<lambda>job1.
     ebind (getitem job1 ''script'') (\<lambda>sv.
       case extract_str_list sv (Some []) of
         Some (s # ss) \<Rightarrow> setitem job1 ''script'' (PList (map PStr (s # ss)))
       | _ \<Rightarrow> Inr job1)))"

definition job_script_always_list :: "cidict \<Rightarrow> error + cidict" where
  "job_script_always_list d = for_jobs script_always_list d"

subsection \<open>\<open>_job_combine_variables\<close>\<close>

text \<open>\<open>for pvar, gvalue in pvars.items(): if not pvar in jvars: jvars[pvar] = gvalue\<close>\<close>

fun fill_missing :: "(pyval \<times> pyval) list \<Rightarrow> (pyval \<times> pyval) list \<Rightarrow> (pyval \<times> pyval) list" where
  "fill_missing [] jvars = jvars"
| "fill_missing ((pvar, gvalue) # ps) jvars =
     fill_missing ps (if dhas jvars pvar then jvars else dset jvars pvar gvalue)"

text \<open>\<open>for civar, civalue in vars.items(): jvars[civar] = civalue\<close>\<close>

fun overlay :: "(pyval \<times> pyval) list \<Rightarrow> (pyval \<times> pyval) list \<Rightarrow> (pyval \<times> pyval) list" where
  "overlay [] jvars = jvars"
| "overlay ((civar, civalue) # vs) jvars = overlay vs (dset jvars civar civalue)"

definition job_variables :: "(pyval \<times> pyval) list \<Rightarrow> pyval" where
  "job_variables jd = (case dget jd (PStr ''variables'') of Some v \<Rightarrow> v | None \<Rightarrow> PDict [])"

definition combine_variables :: "config \<Rightarrow> (pyval \<times> pyval) list \<Rightarrow> (pyval \<times> pyval) list \<Rightarrow> pyval \<Rightarrow> pyval" where
  "combine_variables cfg pvars injectdict job =
     (case job of
        PDict jd \<Rightarrow>
          PDict (dset jd (PStr ''variables'')
            (PDict (overlay injectdict
                     (overlay (extract_str_dict (forced_variables cfg))
                       (fill_missing pvars (extract_str_dict (job_variables jd)))))))
      | _ \<Rightarrow> job)"

text \<open>
  \<open>for jobname, job in self._cidict.items():
  if jobname not in PIPELINES_KEYS and isinstance(job, dict): ...\<close>
\<close>

definition map_jobs :: "(string \<Rightarrow> pyval \<Rightarrow> pyval) \<Rightarrow> cidict \<Rightarrow> cidict" where
  "map_jobs f d =
     map (\<lambda>kv. if fst kv \<notin> set PIPELINES_KEYS \<and> is_dict (snd kv) then (fst kv, f (fst kv) (snd kv)) else kv) d"

definition job_combine_variables :: "config \<Rightarrow> (pyval \<times> pyval) list \<Rightarrow> cidict \<Rightarrow> cidict" where
  "job_combine_variables cfg injectdict d =
     (let pvars = extract_str_dict (case dget d ''variables'' of Some v \<Rightarrow> v | None \<Rightarrow> PDict []);
          d1 = dset d ''variables'' (PDict pvars);
          d2 = map_jobs (\<lambda>jobname. combine_variables cfg pvars injectdict) d1
      in ddel d2 ''variables'')"

subsection \<open>\<open>_job_streamline_only\<close>\<close>

definition list_of :: "string list option \<Rightarrow> string list" where
  "list_of r = (case r of Some xs \<Rightarrow> xs | None \<Rightarrow> [])"

definition streamline_only :: "string \<Rightarrow> pyval \<Rightarrow> error + pyval" where
  "streamline_only jobname job =
     ebind (py_in ''only'' job) (\<lambda>b.
     ebind (if b then Inr job else setitem job ''only'' (PDict [])) (\<lambda>job1.
     ebind (getitem job1 ''only'') (\<lambda>only.
     ebind (py_in ''variables'' only) (\<lambda>hv.
     ebind (if hv then ebind (getitem only ''variables'') (\<lambda>v. Inr (list_of (extract_str_list v (Some []))))
            else Inr []) (\<lambda>vs.
     ebind (py_in ''refs'' only) (\<lambda>hr.
     ebind (if hr then ebind (getitem only ''refs'') (\<lambda>v. Inr (list_of (extract_str_list v (Some []))))
            else Inr []) (\<lambda>rs.
       let found = filter (\<lambda>v. v \<noteq> ''variables'')
                     (filter (\<lambda>v. v \<noteq> ''refs'') (list_of (extract_str_list only (Some [])) @ vs @ rs))
       in setitem job1 ''only''
            (PDict [(PStr ''refs'', PList (map PStr (filter (\<lambda>v. \<not> startswith v ''$'') found))),
                    (PStr ''variables'', PList (map PStr (filter (\<lambda>v. startswith v ''$'') found)))]))))))))"

definition job_streamline_only :: "cidict \<Rightarrow> error + cidict" where
  "job_streamline_only d = for_jobs streamline_only d"

subsection \<open>\<open>_job_streamline_artifacts\<close>\<close>

definition streamline_artifacts :: "config \<Rightarrow> string \<Rightarrow> pyval \<Rightarrow> error + pyval" where
  "streamline_artifacts cfg jobname job =
     ebind (py_in ''artifacts'' job) (\<lambda>b.
     ebind (if b
            then ebind (getitem job ''artifacts'') (\<lambda>a.
                 ebind (py_in ''paths'' a) (\<lambda>hp.
                 ebind (if hp then ebind (getitem a ''paths'') (\<lambda>p. Inr (str_list_val (extract_str_list p (Some []))))
                        else Inr (if is_list a then str_list_val (extract_str_list a (Some [])) else PList [])) (\<lambda>paths.
                 ebind (get_or a ''name'' (PStr (default_artifact_name cfg))) (\<lambda>name.
                 ebind (py_in ''expire_in'' a) (\<lambda>he.
                 ebind (if he then getitem a ''name'' else Inr (PStr (default_artifact_expire_in cfg))) (\<lambda>expire_in.
                   Inr [(PStr ''name'', name), (PStr ''expire_in'', expire_in), (PStr ''paths'', paths)]))))))
            else Inr [(PStr ''name'', PStr (default_artifact_name cfg)),
                      (PStr ''expire_in'', PStr (default_artifact_expire_in cfg)),
                      (PStr ''paths'', PList [])]) (\<lambda>artifacts.
       setitem job ''artifacts'' (PDict artifacts)))"

definition job_streamline_artifacts :: "config \<Rightarrow> cidict \<Rightarrow> error + cidict" where
  "job_streamline_artifacts cfg d = for_jobs (streamline_artifacts cfg) d"

subsection \<open>\<open>_parse_cidict\<close>\<close>

definition parse_cidict :: "config \<Rightarrow> pyval \<Rightarrow> error + cidict" where
  "parse_cidict cfg root =
     (case root of
        PDict kvs \<Rightarrow>
          ebind (job_scan_apply_stages cfg (pipeline_various_tweaks cfg kvs)) (\<lambda>d1.
          ebind (job_convert_list_to_script d1) (\<lambda>d2.
          ebind (job_scan_apply_stages cfg d2) (\<lambda>d3.
          ebind (job_convert_before_after_script d3) (\<lambda>d4.
          ebind (job_various_tweaks d4) (\<lambda>d5.
          ebind (job_script_always_list d5) (\<lambda>d6.
          ebind (job_streamline_only (job_combine_variables cfg [] d6)) (\<lambda>d8.
            job_streamline_artifacts cfg d8)))))))
      | _ \<Rightarrow> Inl TypeError)"

section \<open>Preparing a run\<close>

subsection \<open>\<open>_pipeline_add_buildinfo\<close>\<close>

definition newline :: char where
  "newline = CHR 0x0A"

text \<open>\<open>CI_COMMIT_MESSAGE.split('\n')[0]\<close>\<close>

definition commit_title :: "string \<Rightarrow> string" where
  "commit_title msg = takeWhile (\<lambda>c. c \<noteq> newline) msg"

text \<open>\<open>msg if len(msg) < 100 else re.sub(r'^[^\n]*\n', '', msg)\<close>\<close>

definition commit_description :: "string \<Rightarrow> string" where
  "commit_description msg =
     (if length msg < 100 then msg
      else if newline \<in> set msg then tl (dropWhile (\<lambda>c. c \<noteq> newline) msg) else msg)"

definition pipeline_triggered :: "string \<Rightarrow> bool" where
  "pipeline_triggered source = (source \<in> set [''trigger'', ''api'', ''pipeline'', ''schedule'', ''web''])"

definition buildinfo :: "string \<Rightarrow> string \<Rightarrow> string \<Rightarrow> string \<Rightarrow> string option \<Rightarrow> (pyval \<times> pyval) list" where
  "buildinfo ref_name source msg sha tag =
     [(PStr ''CI'', PBool True),
      (PStr ''CI_COMMIT_REF_NAME'', PStr ref_name),
      (PStr ''CI_PIPELINE_SOURCE'', PStr source),
      (PStr ''CI_COMMIT_MESSAGE'', PStr msg),
      (PStr ''CI_COMMIT_SHA'', PStr sha),
      (PStr ''CI_COMMIT_REF_SLUG'', PStr (ref_slug ref_name)),
      (PStr ''CI_COMMIT_TITLE'', PStr (commit_title msg)),
      (PStr ''CI_COMMIT_DESCRIPTION'', PStr (commit_description msg)),
      (PStr ''CI_PIPELINE_TRIGGERED'', PBool (pipeline_triggered source))]
     @ (case tag of Some t \<Rightarrow> (if t \<noteq> [] then [(PStr ''CI_COMMIT_TAG'', PStr t)] else []) | None \<Rightarrow> [])"

text \<open>The loop that adds \<open>CI_JOB_NAME\<close> and \<open>CI_JOB_STAGE\<close> to every job.\<close>

definition add_job_variables :: "string \<Rightarrow> pyval \<Rightarrow> error + pyval" where
  "add_job_variables jobname job =
     (case job of
        PDict jd \<Rightarrow>
          ebind (getitem job ''stage'') (\<lambda>stage.
            Inr (PDict (dset jd (PStr ''variables'')
              (PDict (dset (dset (extract_str_dict (job_variables jd))
                        (PStr ''CI_JOB_NAME'') (PStr jobname)) (PStr ''CI_JOB_STAGE'') stage)))))
      | _ \<Rightarrow> Inr job)"

definition pipeline_add_buildinfo ::
  "config \<Rightarrow> string \<Rightarrow> string \<Rightarrow> string \<Rightarrow> string \<Rightarrow> string option \<Rightarrow> cidict \<Rightarrow> error + cidict" where
  "pipeline_add_buildinfo cfg ref_name source msg sha tag d =
     for_jobs add_job_variables (job_combine_variables cfg (buildinfo ref_name source msg sha tag) d)"

subsection \<open>Variable substitution in the process environment\<close>

text \<open>
  \<open>os.environ\<close> is one object of the process: a mapping from names to values that the
  evaluation writes into and \<open>os.path.expandvars\<close> reads.
\<close>

type_synonym environ = "(string \<times> string) list"

definition environ_set :: "environ \<Rightarrow> pyval \<Rightarrow> pyval \<Rightarrow> error + environ" where
  "environ_set env k v =
     (case k of
        PStr ks \<Rightarrow>
          (case v of
             PStr vs \<Rightarrow>
               (if ks = [] \<or> CHR ''='' \<in> set ks \<or> CHR 0x00 \<in> set ks \<or> CHR 0x00 \<in> set vs
                then Inl ValueError else Inr (dset env ks vs))
           | _ \<Rightarrow> Inl TypeError)
      | _ \<Rightarrow> Inl TypeError)"

definition is_word :: "char \<Rightarrow> bool" where
  "is_word c = (is_digit c \<or> is_lower_letter c \<or> is_upper_letter c \<or> c = CHR ''_'')"

text \<open>
  \<open>os.path.expandvars\<close>: every \<open>$name\<close> and \<open>${name}\<close> whose name is in the environment
  is replaced by its value, and is left as it is otherwise.
\<close>

function expandvars :: "environ \<Rightarrow> string \<Rightarrow> string" where
  "expandvars env [] = []"
| "expandvars env (c # cs) =
     (if c \<noteq> CHR ''$'' then c # expandvars env cs
      else if cs \<noteq> [] \<and> is_word (hd cs)
      then (case dget env (takeWhile is_word cs) of
              Some v \<Rightarrow> v | None \<Rightarrow> CHR ''$'' # takeWhile is_word cs)
           @ expandvars env (dropWhile is_word cs)
      else if cs \<noteq> [] \<and> hd cs = CHR ''{'' \<and> CHR ''}'' \<in> set (tl cs)
      then (case dget env (takeWhile (\<lambda>x. x \<noteq> CHR ''}'') (tl cs)) of
              Some v \<Rightarrow> v | None \<Rightarrow> ''${'' @ takeWhile (\<lambda>x. x \<noteq> CHR ''}'') (tl cs) @ ''}'')
           @ expandvars env (tl (dropWhile (\<lambda>x. x \<noteq> CHR ''}'') (tl cs)))
      else c # expandvars env cs)"
  by pat_completeness auto
termination
proof (relation "measure (\<lambda>(env, s). length s)")
  show "wf (measure (\<lambda>(env, s). length s))" by simp
next
  fix env :: environ and c :: char and cs :: string
  show "((env, cs), (env, c # cs)) \<in> measure (\<lambda>(env, s). length s)" by simp
  show "((env, cs), (env, c # cs)) \<in> measure (\<lambda>(env, s). length s)" by simp
  have "length (dropWhile is_word cs) \<le> length cs" by (rule length_dropWhile_le)
  then show "((env, dropWhile is_word cs), (env, c # cs)) \<in> measure (\<lambda>(env, s). length s)" by simp
  have "length (dropWhile (\<lambda>x. x \<noteq> CHR ''}'') (tl cs)) \<le> length (tl cs)" by (rule length_dropWhile_le)
  then show "((env, tl (dropWhile (\<lambda>x. x \<noteq> CHR ''}'') (tl cs))), (env, c # cs)) \<in> measure (\<lambda>(env, s). length s)"
    by simp
qed

text \<open>\<open>condition.split("==")\<close>; the first argument collects the current part in reverse.\<close>

fun split_eqeq :: "string \<Rightarrow> string \<Rightarrow> string list" where
  "split_eqeq cur [] = [rev cur]"
| "split_eqeq cur [c] = [rev (c # cur)]"
| "split_eqeq cur (c # c' # cs) =
     (if c = CHR ''='' \<and> c' = CHR ''='' then rev cur # split_eqeq [] cs
      else split_eqeq (c # cur) (c' # cs))"

definition is_space :: "char \<Rightarrow> bool" where
  "is_space c = (ord c = 32 \<or> (9 \<le> ord c \<and> ord c \<le> 13) \<or> (28 \<le> ord c \<and> ord c \<le> 31))"

text \<open>\<open>s.strip()\<close> and \<open>s.strip('"')\<close>\<close>

definition strip_ws :: "string \<Rightarrow> string" where
  "strip_ws s = rev (dropWhile is_space (rev (dropWhile is_space s)))"

definition strip_quotes :: "string \<Rightarrow> string" where
  "strip_quotes s = strip_chars (CHR 0x22) s"

subsection \<open>\<open>_evaluate_jobs\<close>\<close>

text \<open>\<open>for x in obj\<close> and \<open>obj.items()\<close>\<close>

fun py_iter :: "pyval \<Rightarrow> error + pyval list" where
  "py_iter (PList xs) = Inr xs"
| "py_iter (PStr s) = Inr (map (\<lambda>c. PStr [c]) s)"
| "py_iter (PDict kvs) = Inr (map fst kvs)"
| "py_iter _ = Inl TypeError"

fun dict_items :: "pyval \<Rightarrow> error + (pyval \<times> pyval) list" where
  "dict_items (PDict kvs) = Inr kvs"
| "dict_items _ = Inl AttributeError"

text \<open>\<open>for jvar, jvalue in job[JOBKEY_VARIABLES].items(): os.environ[jvar] = jvalue\<close>\<close>

definition environ_update :: "environ \<Rightarrow> (pyval \<times> pyval) list \<Rightarrow> error + environ" where
  "environ_update env kvs = efold (\<lambda>kv e. environ_set e (fst kv) (snd kv)) kvs env"

text \<open>One condition of \<open>only.variables\<close>, with the four matching rules in the code's order.\<close>

definition condition_matches :: "environ \<Rightarrow> string \<Rightarrow> bool" where
  "condition_matches env condition =
     (case split_eqeq [] condition of
        [] \<Rightarrow> False
      | l # rest \<Rightarrow>
          (let left = expandvars env (strip_quotes (strip_ws l));
               right = (case rest of [] \<Rightarrow> None
                        | r # _ \<Rightarrow> Some (strip_quotes (strip_ws (expandvars env r))))
           in if left \<noteq> [] \<and> right = None then True
              else if left \<noteq> [] \<and> right = Some [] then True
              else if CHR ''$'' \<in> set left
                      \<and> (case right of None \<Rightarrow> False
                          | Some r \<Rightarrow> r \<noteq> [] \<and> r \<in> set [''null'', ''nil'', ''None''])
              then True
              else (case right of None \<Rightarrow> False | Some r \<Rightarrow> r \<noteq> [] \<and> left = r)))"

definition eval_conditions :: "environ \<Rightarrow> pyval list \<Rightarrow> error + bool" where
  "eval_conditions env conds =
     efold (\<lambda>c acc. case c of PStr s \<Rightarrow> Inr (condition_matches env s \<or> acc) | _ \<Rightarrow> Inl AttributeError)
       conds False"

definition has_truthy :: "(pyval \<times> pyval) list \<Rightarrow> string \<Rightarrow> bool" where
  "has_truthy jd k = (case dget jd (PStr k) of Some v \<Rightarrow> truthy v | None \<Rightarrow> False)"

definition job_run_script :: "(pyval \<times> pyval) list \<Rightarrow> bool" where
  "job_run_script jd =
     (has_truthy jd ''script'' \<or> (has_truthy jd ''dependencies'' \<and> has_truthy jd ''artifacts''))"

text \<open>The four ref rules, for \<open>job[only][refs]\<close>, \<open>job[only][variables]\<close> and \<open>job[variables]\<close>.\<close>

definition job_run_ref_ok :: "pyval \<Rightarrow> pyval \<Rightarrow> pyval \<Rightarrow> error + bool" where
  "job_run_ref_ok refs ovars jvars =
     ebind (py_in ''triggers'' refs) (\<lambda>t.
     ebind (if t then ebind (getitem jvars ''CI_PIPELINE_TRIGGERED'') (\<lambda>v. Inr (truthy v)) else Inr False) (\<lambda>r2.
     ebind (py_in ''tags'' refs) (\<lambda>g.
     ebind (if g then py_in ''CI_COMMIT_TAG'' jvars else Inr False) (\<lambda>r3.
     ebind (py_iter refs) (\<lambda>rs.
     ebind (efold (\<lambda>ref acc. if ref \<noteq> PStr ''tags'' \<and> ref \<noteq> PStr ''triggers''
                               then ebind (getitem jvars ''CI_COMMIT_REF_NAME'') (\<lambda>v. Inr (v = ref \<or> acc))
                               else Inr acc) rs False) (\<lambda>r4.
       Inr ((\<not> truthy refs \<and> \<not> truthy ovars) \<or> r2 \<or> r3 \<or> r4)))))))"

text \<open>
  The body of the first loop for one entry. The state is the process environment and
  \<open>jobs_to_remove\<close>. \<open>os.environ = bak_env\<close> assigns the object it already is, so the
  environment the job sees is the one the previous jobs left.
\<close>

definition evaluate_job :: "string \<times> pyval \<Rightarrow> environ \<times> string list \<Rightarrow> error + environ \<times> string list" where
  "evaluate_job kv st =
     (case snd kv of
        PDict jd \<Rightarrow>
          (if fst kv \<in> set PIPELINES_KEYS then Inr st
           else
             ebind (getitem (snd kv) ''only'') (\<lambda>only.
             ebind (getitem only ''variables'') (\<lambda>ovars.
             ebind (py_len ovars) (\<lambda>n.
             ebind (getitem (snd kv) ''variables'') (\<lambda>jvars.
             ebind (dict_items jvars) (\<lambda>items.
             ebind (environ_update (fst st) items) (\<lambda>env.
             ebind (getitem only ''refs'') (\<lambda>refs.
             ebind (job_run_ref_ok refs ovars jvars) (\<lambda>ref_ok.
             ebind (py_iter ovars) (\<lambda>conds.
             ebind (eval_conditions env conds) (\<lambda>m.
               Inr (env, if ref_ok \<and> (n = 0 \<or> m) \<and> job_run_script jd
                         then snd st else snd st @ [fst kv]))))))))))))
      | _ \<Rightarrow> Inr st)"

text \<open>One scan of the pruning loop: the flag ends as the last job with a missing dependency.\<close>

definition has_missing_dep :: "string list \<Rightarrow> pyval \<Rightarrow> error + bool" where
  "has_missing_dep jobnames job =
     ebind (getitem job ''dependencies'') (\<lambda>deps.
     ebind (py_iter deps) (\<lambda>ds. Inr (list_ex (\<lambda>dep. dep \<notin> set (map PStr jobnames)) ds)))"

fun scan_missing :: "string list \<Rightarrow> cidict \<Rightarrow> string option \<Rightarrow> error + string option" where
  "scan_missing jobnames [] removedsomething = Inr removedsomething"
| "scan_missing jobnames ((jobname, job) # kvs) removedsomething =
     (if jobname \<notin> set PIPELINES_KEYS \<and> is_dict job
      then (case has_missing_dep jobnames job of
              Inl e \<Rightarrow> Inl e
            | Inr b \<Rightarrow> scan_missing jobnames kvs (if b then Some jobname else removedsomething))
      else scan_missing jobnames kvs removedsomething)"

text \<open>
  \<open>while removedsomething:\<close> the flag is the name of the job to remove, and it is tested
  for truth: the loop goes on while the name is a non-empty string.
\<close>

function prune :: "cidict \<Rightarrow> error + cidict" where
  "prune d =
     (case scan_missing (map fst d) d None of
        Inl e \<Rightarrow> Inl e
      | Inr None \<Rightarrow> Inr d
      | Inr (Some jobname) \<Rightarrow>
          (if jobname \<noteq> [] then prune (filter (\<lambda>kv. fst kv \<noteq> jobname) d) else Inr d))"
  by pat_completeness auto
termination
proof (relation "measure length")
  show "wf (measure length)" by simp
next
  fix d :: cidict and r :: "string option" and jobname :: string
  assume scan: "scan_missing (map fst d) d None = Inr r" and r: "r = Some jobname"
  have "scan_missing names kvs r0 = Inr (Some n) \<Longrightarrow> r0 = Some n \<or> n \<in> fst ` set kvs"
    for names kvs r0 n
    by (induction names kvs r0 rule: scan_missing.induct)
       (auto split: if_splits sum.splits)
  from this [of "map fst d" d None jobname] scan r
  obtain kv where "kv \<in> set d" "fst kv = jobname" by auto
  then have "length (filter (\<lambda>kv. fst kv \<noteq> jobname) d) < length d"
    by (intro length_filter_less [of kv]) auto
  then show "(filter (\<lambda>kv. fst kv \<noteq> jobname) d, d) \<in> measure length" by simp
qed

definition evaluate_jobs :: "environ \<Rightarrow> cidict \<Rightarrow> error + cidict \<times> environ" where
  "evaluate_jobs env0 d =
     ebind (efold evaluate_job d (env0, [])) (\<lambda>st.
     ebind (prune (filter (\<lambda>kv. fst kv \<notin> set (snd st)) d)) (\<lambda>d'. Inr (d', fst st)))"

subsection \<open>\<open>convert_to_matrix\<close> and \<open>_assign_ids\<close>\<close>

text \<open>
  \<open>a == b\<close> on document values: booleans are the integers 0 and 1, and a float equals
  the integer whose rendering it is.
\<close>

fun int_of_val :: "pyval \<Rightarrow> int option" where
  "int_of_val (PBool b) = Some (if b then 1 else 0)"
| "int_of_val (PInt i) = Some i"
| "int_of_val _ = None"

fun float_of_val :: "pyval \<Rightarrow> string option" where
  "float_of_val (PFloat r) = Some (if r = ''-0.0'' then ''0.0'' else r)"
| "float_of_val v = (case int_of_val v of Some i \<Rightarrow> Some (str_int i @ ''.0'') | None \<Rightarrow> None)"

definition py_eq :: "pyval \<Rightarrow> pyval \<Rightarrow> bool" where
  "py_eq a b =
     (a = b \<or> (case float_of_val a of None \<Rightarrow> False | Some x \<Rightarrow> float_of_val b = Some x))"

fun emap :: "('a \<Rightarrow> error + 'b) \<Rightarrow> 'a list \<Rightarrow> error + 'b list" where
  "emap f [] = Inr []"
| "emap f (x # xs) =
     (case f x of Inl e \<Rightarrow> Inl e
      | Inr y \<Rightarrow> (case emap f xs of Inl e \<Rightarrow> Inl e | Inr ys \<Rightarrow> Inr (y # ys)))"

record matrix =
  m_jobs :: "cidict list"
  m_stages :: pyval
  m_image :: pyval

text \<open>The jobs of one stage, as values; see the last section for what the groups share.\<close>

definition stage_group :: "cidict \<Rightarrow> pyval \<Rightarrow> error + cidict" where
  "stage_group d stage =
     efold (\<lambda>kv jobs. if fst kv \<notin> set PIPELINES_KEYS \<and> is_dict (snd kv)
                       then ebind (getitem (snd kv) ''stage'')
                              (\<lambda>s. Inr (if py_eq s stage then dset jobs (fst kv) (snd kv) else jobs))
                       else Inr jobs) d []"

definition convert_to_matrix :: "cidict \<Rightarrow> error + matrix" where
  "convert_to_matrix d =
     (case dget d ''stages'' of
        None \<Rightarrow> Inl KeyError
      | Some stages \<Rightarrow>
          (case dget d ''image'' of
             None \<Rightarrow> Inl KeyError
           | Some img \<Rightarrow>
               ebind (py_iter stages) (\<lambda>ss.
               ebind (emap (stage_group d) ss) (\<lambda>groups.
                 Inr \<lparr> m_jobs = groups, m_stages = stages, m_image = img \<rparr>))))"

record id_generator =
  last_job_id :: int
  last_pipeline_id :: int

definition assign_job_id :: "string \<Rightarrow> string \<Rightarrow> cidict \<times> id_generator \<Rightarrow> error + cidict \<times> id_generator" where
  "assign_job_id pipeline_id jobname st =
     (case dget (fst st) jobname of
        Some (PDict jd) \<Rightarrow>
          (let g = (snd st)\<lparr> last_job_id := last_job_id (snd st) + 1 \<rparr>;
               jvars = dset (dset (extract_str_dict (job_variables jd))
                               (PStr ''CI_PIPELINE_ID'') (PStr pipeline_id))
                         (PStr ''CI_JOB_ID'') (PStr (str_int (last_job_id g)))
           in Inr (dset (fst st) jobname (PDict (dset jd (PStr ''variables'') (PDict jvars))), g))
      | _ \<Rightarrow> Inl KeyError)"

definition assign_ids :: "cidict \<Rightarrow> id_generator \<Rightarrow> error + cidict \<times> id_generator" where
  "assign_ids d g =
     (let g1 = g\<lparr> last_pipeline_id := last_pipeline_id g + 1 \<rparr>
      in ebind (convert_to_matrix d) (\<lambda>m.
           efold (assign_job_id (str_int (last_pipeline_id g1))) (concat (map (map fst) (m_jobs m))) (d, g1)))"

subsection \<open>\<open>prepare_run_with\<close>\<close>

text \<open>
  The result is the pipeline, the process environment as the call leaves it, and the
  identifier counters.
\<close>

definition prepare_run_with ::
  "config \<Rightarrow> environ \<Rightarrow> id_generator \<Rightarrow> string \<Rightarrow> string \<Rightarrow> string \<Rightarrow> string \<Rightarrow> string option \<Rightarrow> cidict
   \<Rightarrow> error + cidict \<times> environ \<times> id_generator" where
  "prepare_run_with cfg env g ref_name source msg sha tag d =
     ebind (pipeline_add_buildinfo cfg ref_name source msg sha tag d) (\<lambda>d1.
     ebind (evaluate_jobs env d1) (\<lambda>r.
     ebind (assign_ids (fst r) g) (\<lambda>r'. Inr (fst r', snd r, snd r'))))"

text \<open>The names of the jobs of a pipeline: its keys that are not reserved.\<close>

definition job_names :: "cidict \<Rightarrow> string list" where
  "job_names d = filter (\<lambda>k. k \<notin> set PIPELINES_KEYS) (map fst d)"

text \<open>\<open>read_cifile(dictionary=root)\<close> followed by \<open>prepare_run_with\<close>.\<close>

definition run ::
  "config \<Rightarrow> environ \<Rightarrow> id_generator \<Rightarrow> pyval \<Rightarrow> string \<Rightarrow> string \<Rightarrow> string \<Rightarrow> string \<Rightarrow> string option
   \<Rightarrow> error + cidict \<times> environ \<times> id_generator" where
  "run cfg env g root ref_name source msg sha tag =
     ebind (if truthy root then parse_cidict cfg root else Inr [])
       (prepare_run_with cfg env g ref_name source msg sha tag)"

section \<open>Properties\<close>

subsection \<open>Coercion of variable dictionaries\<close>

text \<open>
  C9. Every entry of a \<open>variables\<close> mapping whose value is coercible to a string, the
  empty string included, should survive \<open>extract_str_dict\<close> with its coerced value.
  The code tests the coerced value for truth (\<open>if value:\<close>), so an entry whose value
  is the empty string is dropped although it is a string, while its neighbours survive.
\<close>

theorem extract_str_dict_drops_empty_string:
  "extract_str_dict (PDict [(PStr ''X'', PStr ''''), (PStr ''Y'', PInt 7)]) = [(PStr ''Y'', PStr ''7'')]"
  by code_simp

subsection \<open>The commit ref slug\<close>

lemma lower_char_not_upper: "\<not> is_upper_letter (lower_char c)"
proof (cases "is_upper_letter c")
  case True
  then have "(ord c + 32) mod 256 = ord c + 32"
    by (simp add: is_upper_letter_def)
  then have "ord (char_of (ord c + 32)) = ord c + 32"
    by (simp add: ord_def)
  with True show ?thesis
    by (simp add: lower_char_def is_upper_letter_def)
next
  case False
  then show ?thesis by (simp add: lower_char_def)
qed

lemma re_sub_runs_lower:
  "re_sub_runs (\<lambda>c. \<not> (is_digit c \<or> is_lower_letter c \<or> is_upper_letter c)) b (lower s)
   = re_sub_runs (\<lambda>c. \<not> (is_digit c \<or> is_lower_letter c)) b (lower s)"
  by (induction s arbitrary: b) (simp_all add: lower_def lower_char_not_upper)

text \<open>
  C10. The slug computed by the code (class \<open>[^0-9a-zA-Z]\<close> applied to the lowercased
  name) is the slug of the specification (class outside \<open>[0-9a-z]\<close>), for every ref
  name, and the ref name \<open>Feature/XYZ_123!\<close> gives \<open>feature-xyz-123\<close>.
\<close>

theorem ref_slug_is_spec_slug:
  "ref_slug name = spec_slug name \<and> ref_slug ''Feature/XYZ_123!'' = ''feature-xyz-123''"
proof
  show "ref_slug name = spec_slug name"
    unfolding ref_slug_def spec_slug_def re_sub_runs_lower ..
  show "ref_slug ''Feature/XYZ_123!'' = ''feature-xyz-123''"
    by code_simp
qed

subsection \<open>Normalization\<close>

text \<open>
  C1. After normalization every job should have a \<open>stage\<close> that is a member of
  \<open>stages\<close> and a \<open>script\<close> that is a list. For the accepted document
  \<open>{job: {stage: "", script: null}}\<close> the code returns a job whose stage is the empty
  string, while \<open>stages\<close> is \<open>[test]\<close>, and whose script is still \<open>None\<close>:
  the stage scan skips the empty stage, the assignment step keeps it, and
  \<open>_job_script_always_list\<close> stores the coerced script only when it is not empty.
\<close>

theorem parse_cidict_keeps_empty_stage_and_null_script:
  "parse_cidict default_config
     (PDict [(PStr ''job'', PDict [(PStr ''stage'', PStr ''''), (PStr ''script'', PNone)])])
   = Inr [(''job'',
           PDict [(PStr ''stage'', PStr ''''), (PStr ''script'', PNone),
                  (PStr ''tags'', PList []), (PStr ''dependencies'', PList []),
                  (PStr ''variables'', PDict []),
                  (PStr ''only'', PDict [(PStr ''refs'', PList []), (PStr ''variables'', PList [])]),
                  (PStr ''artifacts'',
                   PDict [(PStr ''name'', PStr ''${CI_JOB_NAME}_${CI_COMMIT_REF_NAME}_${CI_JOB_ID}''),
                          (PStr ''expire_in'', PStr ''3 days''), (PStr ''paths'', PList [])])]),
          (''image'', PStr ''local_system_shell''),
          (''stages'', PList [PStr ''test''])]"
  by code_simp

text \<open>
  C4. Normalization should raise only for a root that is not a mapping. For the mapping
  roots \<open>{job: "make"}\<close> (a job that is a bare string) and \<open>{job: []}\<close> (a list with
  no coercible element) \<open>_parse_cidict\<close> raises \<open>TypeError\<close>: \<open>_job_various_tweaks\<close>
  assigns \<open>job["tags"]\<close> without the \<open>isinstance(job, dict)\<close> test that the stage scan
  and the variable combination make.
\<close>

theorem parse_cidict_raises_on_scalar_job:
  "parse_cidict default_config (PDict [(PStr ''job'', PStr ''make'')]) = Inl TypeError
   \<and> parse_cidict default_config (PDict [(PStr ''job'', PList [])]) = Inl TypeError"
  by code_simp

text \<open>
  C8. A declared \<open>expire_in\<close> should be the \<open>expire_in\<close> of the normalized artifacts
  record. The code reads \<open>artifacts["name"]\<close> in its place: with a declared name the
  record's \<open>expire_in\<close> is that name, and without one the lookup raises \<open>KeyError\<close>.
\<close>

theorem streamline_artifacts_expire_in_is_name:
  "streamline_artifacts default_config ''job''
     (PDict [(PStr ''artifacts'', PDict [(PStr ''name'', PStr ''pkg''), (PStr ''expire_in'', PStr ''7 days'')])])
   = Inr (PDict [(PStr ''artifacts'',
            PDict [(PStr ''name'', PStr ''pkg''), (PStr ''expire_in'', PStr ''pkg''), (PStr ''paths'', PList [])])])
   \<and> streamline_artifacts default_config ''job''
     (PDict [(PStr ''artifacts'', PDict [(PStr ''expire_in'', PStr ''7 days'')])]) = Inl KeyError"
  by code_simp

end
